theory Spec2Isabelle
  imports Main "HOL-Library.Word"
begin

unbundle bit_operations_syntax

section \<open>The security state controller of machined\<close>

text \<open>
  This theory embeds \<^verbatim>\<open>internal/app/machined/pkg/controllers/runtime/security_state.go\<close>:
  the one-shot controller \<^verbatim>\<open>SecurityStateController.Run\<close> and the helper
  \<^verbatim>\<open>x509CertFingerprint\<close>. The Go standard library functions the helper calls
  (\<^verbatim>\<open>sha256.Sum256\<close>, \<^verbatim>\<open>hex.EncodeToString\<close>, \<^verbatim>\<open>strings.ToUpper\<close>) are written
  out; the collaborators of \<^verbatim>\<open>Run\<close> (firmware, file system, PEM decoder, resource
  runtime) are inputs of the model.
\<close>

type_synonym byte = "8 word"
type_synonym uint32 = "32 word"
type_synonym uint64 = "64 word"

subsection \<open>crypto/sha256\<close>

text \<open>
  \<^verbatim>\<open>bits.RotateLeft32(x, -k)\<close> rotates a 32-bit value right by \<open>k\<close> bits; every call in
  the block function has \<open>0 < k < 32\<close>.
\<close>

definition RotateRight32 :: "uint32 \<Rightarrow> nat \<Rightarrow> uint32" where
  "RotateRight32 x k = drop_bit k x OR push_bit (32 - k) x"

text \<open>The round constants \<^verbatim>\<open>_K\<close> and the initial hash value \<^verbatim>\<open>init0 .. init7\<close>.\<close>

definition K256 :: "uint32 list" where
  "K256 = [
    0x428A2F98, 0x71374491, 0xB5C0FBCF, 0xE9B5DBA5, 0x3956C25B, 0x59F111F1, 0x923F82A4, 0xAB1C5ED5,
    0xD807AA98, 0x12835B01, 0x243185BE, 0x550C7DC3, 0x72BE5D74, 0x80DEB1FE, 0x9BDC06A7, 0xC19BF174,
    0xE49B69C1, 0xEFBE4786, 0x0FC19DC6, 0x240CA1CC, 0x2DE92C6F, 0x4A7484AA, 0x5CB0A9DC, 0x76F988DA,
    0x983E5152, 0xA831C66D, 0xB00327C8, 0xBF597FC7, 0xC6E00BF3, 0xD5A79147, 0x06CA6351, 0x14292967,
    0x27B70A85, 0x2E1B2138, 0x4D2C6DFC, 0x53380D13, 0x650A7354, 0x766A0ABB, 0x81C2C92E, 0x92722C85,
    0xA2BFE8A1, 0xA81A664B, 0xC24B8B70, 0xC76C51A3, 0xD192E819, 0xD6990624, 0xF40E3585, 0x106AA070,
    0x19A4C116, 0x1E376C08, 0x2748774C, 0x34B0BCB5, 0x391C0CB3, 0x4ED8AA4A, 0x5B9CCA4F, 0x682E6FF3,
    0x748F82EE, 0x78A5636F, 0x84C87814, 0x8CC70208, 0x90BEFFFA, 0xA4506CEB, 0xBEF9A3F7, 0xC67178F2]"

type_synonym hstate =
  "uint32 \<times> uint32 \<times> uint32 \<times> uint32 \<times> uint32 \<times> uint32 \<times> uint32 \<times> uint32"

definition init256 :: hstate where
  "init256 = (0x6a09e667, 0xbb67ae85, 0x3c6ef372, 0xa54ff53a,
              0x510e527f, 0x9b05688c, 0x1f83d9ab, 0x5be0cd19)"

text \<open>
  The first loop of \<^verbatim>\<open>blockGeneric\<close>: the sixteen big-endian words of a 64-byte chunk,
  \<^verbatim>\<open>w[i] = uint32(p[j])<<24 | uint32(p[j+1])<<16 | uint32(p[j+2])<<8 | uint32(p[j+3])\<close>.
\<close>

fun be_words :: "byte list \<Rightarrow> uint32 list" where
  "be_words (b0 # b1 # b2 # b3 # bs) =
     (push_bit 24 (ucast b0) OR push_bit 16 (ucast b1) OR push_bit 8 (ucast b2) OR ucast b3)
       # be_words bs"
| "be_words _ = []"

text \<open>
  The second loop, \<^verbatim>\<open>for i := 16; i < 64; i++\<close>. The list \<open>w\<close> holds the words computed
  so far, newest first, so that \<^verbatim>\<open>w[i-2]\<close>, \<^verbatim>\<open>w[i-7]\<close>, \<^verbatim>\<open>w[i-15]\<close> and \<^verbatim>\<open>w[i-16]\<close> are
  the entries 1, 6, 14 and 15.
\<close>

fun schedule :: "nat \<Rightarrow> uint32 list \<Rightarrow> uint32 list" where
  "schedule 0 w = w"
| "schedule (Suc n) w =
     (let v1 = w ! 1; v2 = w ! 14;
          t1 = RotateRight32 v1 17 XOR RotateRight32 v1 19 XOR drop_bit 10 v1;
          t2 = RotateRight32 v2 7 XOR RotateRight32 v2 18 XOR drop_bit 3 v2
      in schedule n ((t1 + w ! 6 + t2 + w ! 15) # w))"

text \<open>One pass of the third loop, with \<^verbatim>\<open>_K[i]\<close> and \<^verbatim>\<open>w[i]\<close> given as a pair.\<close>

fun round256 :: "hstate \<Rightarrow> uint32 \<times> uint32 \<Rightarrow> hstate" where
  "round256 (a, b, c, d, e, f, g, h) (k, w) =
     (let t1 = h + (RotateRight32 e 6 XOR RotateRight32 e 11 XOR RotateRight32 e 25)
                 + ((e AND f) XOR (NOT e AND g)) + k + w;
          t2 = (RotateRight32 a 2 XOR RotateRight32 a 13 XOR RotateRight32 a 22)
                 + ((a AND b) XOR (a AND c) XOR (b AND c))
      in (t1 + t2, a, b, c, d + t1, e, f, g))"

fun add_state :: "hstate \<Rightarrow> hstate \<Rightarrow> hstate" where
  "add_state (h0, h1, h2, h3, h4, h5, h6, h7) (a, b, c, d, e, f, g, h) =
     (h0 + a, h1 + b, h2 + c, h3 + d, h4 + e, h5 + f, h6 + g, h7 + h)"

text \<open>The body of the chunk loop of \<^verbatim>\<open>blockGeneric\<close> for one 64-byte chunk.\<close>

definition block_chunk :: "hstate \<Rightarrow> byte list \<Rightarrow> hstate" where
  "block_chunk hs p =
     add_state hs (foldl round256 hs (zip K256 (rev (schedule 48 (rev (be_words p))))))"

text \<open>The chunk loop \<^verbatim>\<open>for len(p) >= chunk { ...; p = p[chunk:] }\<close>.\<close>

function blockGeneric :: "hstate \<Rightarrow> byte list \<Rightarrow> hstate" where
  "blockGeneric hs p =
     (if length p \<ge> 64 then blockGeneric (block_chunk hs (take 64 p)) (drop 64 p) else hs)"
  by pat_completeness auto
termination
  by (relation "measure (\<lambda>(hs, p). length p)") auto

declare blockGeneric.simps [simp del]

definition PutUint32 :: "uint32 \<Rightarrow> byte list" where
  "PutUint32 x = [ucast (drop_bit 24 x), ucast (drop_bit 16 x), ucast (drop_bit 8 x), ucast x]"

definition PutUint64 :: "uint64 \<Rightarrow> byte list" where
  "PutUint64 x =
     [ucast (drop_bit 56 x), ucast (drop_bit 48 x), ucast (drop_bit 40 x), ucast (drop_bit 32 x),
      ucast (drop_bit 24 x), ucast (drop_bit 16 x), ucast (drop_bit 8 x), ucast x]"

text \<open>
  The padding that \<^verbatim>\<open>checkSum\<close> writes after the data: the byte 0x80, zero bytes up to 56
  modulo 64 (\<open>t\<close> counts the 0x80 byte too), and the length in bits as a big-endian
  \<^verbatim>\<open>uint64\<close> (\<^verbatim>\<open>len <<= 3\<close>, which wraps).
\<close>

definition padding :: "nat \<Rightarrow> byte list" where
  "padding len =
     (let t = (if len mod 64 < 56 then 56 - len mod 64 else 64 + 56 - len mod 64)
      in 0x80 # replicate (t - 1) 0 @ PutUint64 (push_bit 3 (word_of_nat len)))"

fun digest_bytes :: "hstate \<Rightarrow> byte list" where
  "digest_bytes (h0, h1, h2, h3, h4, h5, h6, h7) =
     concat (map PutUint32 [h0, h1, h2, h3, h4, h5, h6, h7])"

text \<open>
  \<^verbatim>\<open>sha256.Sum256\<close>: reset the digest, write the data, pad, and read the eight state
  words out big-endian. Writing the data and then the padding runs the block function
  over the chunks of their concatenation, whose length is a multiple of 64.
\<close>

definition Sum256 :: "byte list \<Rightarrow> byte list" where
  "Sum256 data = digest_bytes (blockGeneric init256 (data @ padding (length data)))"

subsection \<open>encoding/hex and strings\<close>

definition hextable :: string where
  "hextable = ''0123456789abcdef''"

text \<open>\<^verbatim>\<open>hex.EncodeToString\<close>: \<^verbatim>\<open>hextable[v>>4]\<close> then \<^verbatim>\<open>hextable[v&0x0f]\<close> for each byte.\<close>

fun EncodeToString :: "byte list \<Rightarrow> string" where
  "EncodeToString [] = []"
| "EncodeToString (v # src) =
     hextable ! unat (drop_bit 4 v) # hextable ! unat (v AND 0x0f) # EncodeToString src"

text \<open>
  \<^verbatim>\<open>strings.ToUpper\<close> on the characters that can occur here: the loop of
  \<^verbatim>\<open>x509CertFingerprint\<close> ranges over the output of \<^verbatim>\<open>hex.EncodeToString\<close>, which is
  ASCII, so every rune is one byte and its index is the character position. A lower-case
  ASCII letter moves to its upper-case letter; any other ASCII character stays.
\<close>

definition upper_char :: "char \<Rightarrow> char" where
  "upper_char c =
     (if (97::nat) \<le> of_char c \<and> of_char c \<le> (122::nat) then char_of (of_char c - (32::nat))
      else c)"

definition ToUpper :: "string \<Rightarrow> string" where
  "ToUpper s = map upper_char s"

subsection \<open>x509CertFingerprint\<close>

text \<open>The one field of \<^verbatim>\<open>x509.Certificate\<close> that the controller sets and reads.\<close>

record Certificate =
  Raw :: "byte list"

text \<open>
  The loop \<^verbatim>\<open>for i, b := range hex.EncodeToString(hash[:])\<close>, with the index \<open>i\<close>, the
  characters still to visit and the buffer \<open>buf\<close> written so far.
\<close>

fun fingerprint_loop :: "nat \<Rightarrow> string \<Rightarrow> string \<Rightarrow> string" where
  "fingerprint_loop i [] buf = buf"
| "fingerprint_loop i (b # bs) buf =
     fingerprint_loop (i + 1) bs
       ((if i > 0 \<and> i mod 2 = 0 then buf @ [CHR '':''] else buf) @ ToUpper [b])"

definition x509CertFingerprint :: "Certificate \<Rightarrow> string" where
  "x509CertFingerprint cert =
     (let hash = Sum256 (Raw cert)
      in fingerprint_loop 0 (EncodeToString hash) [])"

text \<open>
  The format as the specification words it, to compare the loop with. First reading: the
  64 hex characters with a colon inserted before every even-indexed position except
  position 0, then every character in upper case.
\<close>

definition insert_colons :: "string \<Rightarrow> string" where
  "insert_colons s =
     concat (map (\<lambda>(i, c). if even i \<and> i \<noteq> 0 then [CHR '':'', c] else [c]) (enumerate 0 s))"

definition fingerprint_spec :: "byte list \<Rightarrow> string" where
  "fingerprint_spec der = map upper_char (insert_colons (EncodeToString (Sum256 der)))"

text \<open>
  Second reading: one two-character upper-case group for each digest byte, the groups
  separated by colons.
\<close>

definition hex_group :: "byte \<Rightarrow> string" where
  "hex_group v = [upper_char (hextable ! unat (drop_bit 4 v)), upper_char (hextable ! unat (v AND 0x0f))]"

fun join_colon :: "string list \<Rightarrow> string" where
  "join_colon [] = []"
| "join_colon [g] = g"
| "join_colon (g # gs) = g @ CHR '':'' # join_colon gs"

subsection \<open>The published resource\<close>

text \<open>
  Modelled from the spec: the declaration of \<^verbatim>\<open>runtimeres.SecurityStateSpec\<close> (package
  \<^verbatim>\<open>pkg/machinery/resources/runtime\<close>), which the specification gives as the fields
  \<open>secureBoot: bool\<close> and \<open>pcrSigningKeyFingerprint: string\<close> (the empty string means
  absent). The record is extensible, so a statement about its scheme covers any further
  field of the resource.
\<close>

record SecurityStateSpec =
  SecureBoot :: bool
  PCRSigningKeyFingerprint :: string

text \<open>
  Modelled from the spec: \<^verbatim>\<open>runtimeres.NewSecurityStateSpec(runtimeres.NamespaceName)\<close>, the
  freshly default-constructed singleton (Go zero values).
\<close>

definition NewSecurityStateSpec :: SecurityStateSpec where
  "NewSecurityStateSpec = \<lparr>SecureBoot = False, PCRSigningKeyFingerprint = []\<rparr>"

text \<open>The two closures that \<^verbatim>\<open>Run\<close> hands to \<^verbatim>\<open>safe.WriterModify\<close>:
  \<^verbatim>\<open>state.TypedSpec().SecureBoot = secureBootState\<close> and
  \<^verbatim>\<open>state.TypedSpec().PCRSigningKeyFingerprint = x509CertFingerprint(cert)\<close>.\<close>

definition posture_mutation ::
  "bool \<Rightarrow> 'a SecurityStateSpec_scheme \<Rightarrow> 'a SecurityStateSpec_scheme" where
  "posture_mutation secureBootState state = state\<lparr>SecureBoot := secureBootState\<rparr>"

definition fingerprint_mutation ::
  "Certificate \<Rightarrow> 'a SecurityStateSpec_scheme \<Rightarrow> 'a SecurityStateSpec_scheme" where
  "fingerprint_mutation cert state =
     state\<lparr>PCRSigningKeyFingerprint := x509CertFingerprint cert\<rparr>"

subsection \<open>The collaborators of Run\<close>

datatype error = Errorf string | ModifyError string

datatype read_error = NotExist | OtherReadError string

text \<open>What \<^verbatim>\<open>pem.Decode\<close> returns besides the rest of the input.\<close>

record Block =
  Type :: string
  Headers :: "(string \<times> string) list"
  Bytes :: "byte list"

text \<open>What arrives at the \<^verbatim>\<open>select\<close>: cancellation of the context or a scheduling event.\<close>

datatype signal = Done | Event

text \<open>
  The answers of the collaborators to one run: the two firmware booleans of
  \<^verbatim>\<open>efi.GetSecureBoot()\<close> and \<^verbatim>\<open>efi.GetSetupMode()\<close>, the outcome of
  \<^verbatim>\<open>os.ReadFile(constants.PCRPublicKey)\<close>, the function \<^verbatim>\<open>pem.Decode\<close> (the block found,
  if any, and the rest of the data), and for the \<open>n\<close>-th call of the modify primitive
  whether the runtime rejects it.
\<close>

record env =
  GetSecureBoot :: bool
  GetSetupMode :: bool
  ReadFile :: "read_error + byte list"
  Decode :: "byte list \<Rightarrow> Block option \<times> byte list"
  modify_error :: "nat \<Rightarrow> error option"

text \<open>What one run does to its collaborators, in order.\<close>

datatype effect =
    Modified SecurityStateSpec
  | ModifyFailed error
  | FileRead "read_error + byte list"
  | PemDecoded "Block option"

text \<open>
  The state of the resource runtime: the signals in the order in which the \<^verbatim>\<open>select\<close> of
  \<^verbatim>\<open>Run\<close> receives them, the singleton resource if it exists, the number of calls of the
  modify primitive so far, and the log of effects.
\<close>

record runtime =
  signals :: "signal list"
  resource :: "SecurityStateSpec option"
  calls :: nat
  trace :: "effect list"

text \<open>
  Go's \<^verbatim>\<open>select\<close> over \<^verbatim>\<open>ctx.Done()\<close> and \<^verbatim>\<open>r.EventCh()\<close>. The list \<open>ready\<close> holds, in their
  order of arrival, the signals that have arrived when \<^verbatim>\<open>Run\<close> reaches the \<^verbatim>\<open>select\<close>, and
  \<open>later\<close> those that arrive after that. When a cancellation and an event are both
  ready, the \<^verbatim>\<open>select\<close> takes one of the two cases at random, whatever their order of
  arrival: \<open>pick\<close> is the case it takes. Otherwise it takes the signals as they arrived,
  blocking as long as there is none.
\<close>

definition select_order :: "signal list \<Rightarrow> signal \<Rightarrow> signal list \<Rightarrow> signal list" where
  "select_order ready pick later =
     (if Done \<in> set ready \<and> Event \<in> set ready then pick # remove1 pick ready @ later
      else ready @ later)"

text \<open>
  \<^verbatim>\<open>safe.WriterModify(ctx, r, new, fn)\<close>, the modify-or-create primitive of the resource
  runtime: it applies \<open>fn\<close> to the current value of the resource, or to \<open>new\<close> when the
  resource does not exist, and commits the result; or it fails and commits nothing. Both
  closures of \<^verbatim>\<open>Run\<close> return \<^verbatim>\<open>nil\<close>, so \<open>fn\<close> is a pure update.
\<close>

definition WriterModify ::
  "env \<Rightarrow> runtime \<Rightarrow> SecurityStateSpec \<Rightarrow> (SecurityStateSpec \<Rightarrow> SecurityStateSpec)
     \<Rightarrow> error option \<times> runtime" where
  "WriterModify e rt new fn =
     (case modify_error e (calls rt) of
        Some err \<Rightarrow>
          (Some err, rt\<lparr>calls := Suc (calls rt), trace := trace rt @ [ModifyFailed err]\<rparr>)
      | None \<Rightarrow>
          (let state = fn (case resource rt of None \<Rightarrow> new | Some cur \<Rightarrow> cur)
           in (None, rt\<lparr>resource := Some state, calls := Suc (calls rt),
                        trace := trace rt @ [Modified state]\<rparr>)))"

subsection \<open>SecurityStateController.Run\<close>

text \<open>A run either stays blocked in the \<^verbatim>\<open>select\<close> for ever or returns \<^verbatim>\<open>nil\<close> or an error.\<close>

datatype outcome = Blocked | Returned "error option"

definition Run :: "env \<Rightarrow> runtime \<Rightarrow> outcome \<times> runtime" where
  "Run e rt =
     (case signals rt of
        [] \<Rightarrow> (Blocked, rt)
      | Done # _ \<Rightarrow> (Returned None, rt)
      | Event # pending \<Rightarrow>
          (let rt0 = rt\<lparr>signals := pending\<rparr>;
               secureBootState = (if GetSecureBoot e \<and> \<not> GetSetupMode e then True else False);
               (err1, rt1) = WriterModify e rt0 NewSecurityStateSpec (posture_mutation secureBootState)
           in case err1 of
                Some err \<Rightarrow> (Returned (Some err), rt1)
              | None \<Rightarrow>
                  (let rt2 = rt1\<lparr>trace := trace rt1 @ [FileRead (ReadFile e)]\<rparr>
                   in case ReadFile e of
                        Inl _ \<Rightarrow> (Returned None, rt2)
                      | Inr pcrPublicKeyData \<Rightarrow>
                          (let block = fst (Decode e pcrPublicKeyData);
                               rt3 = rt2\<lparr>trace := trace rt2 @ [PemDecoded block]\<rparr>
                           in case block of
                                None \<Rightarrow>
                                  (Returned (Some (Errorf ''failed to decode PEM block for PCR public key'')), rt3)
                              | Some blk \<Rightarrow>
                                  (let cert = \<lparr>Raw = Bytes blk\<rparr>;
                                       (err2, rt4) = WriterModify e rt3 NewSecurityStateSpec
                                                       (fingerprint_mutation cert)
                                   in case err2 of
                                        Some err \<Rightarrow> (Returned (Some err), rt4)
                                      | None \<Rightarrow> (Returned None, rt4))))))"

text \<open>The effects of one run: what it appended to the log.\<close>

definition effects :: "env \<Rightarrow> runtime \<Rightarrow> effect list" where
  "effects e rt = drop (length (trace rt)) (trace (snd (Run e rt)))"

fun is_write :: "effect \<Rightarrow> bool" where
  "is_write (Modified _) = True"
| "is_write _ = False"

fun is_modify_call :: "effect \<Rightarrow> bool" where
  "is_modify_call (Modified _) = True"
| "is_modify_call (ModifyFailed _) = True"
| "is_modify_call _ = False"

text \<open>
  The value the modify primitive hands to the first closure of a run: the resource as it
  is, or the default-constructed one when it does not exist yet.
\<close>

definition prior :: "runtime \<Rightarrow> SecurityStateSpec" where
  "prior rt = (case resource rt of None \<Rightarrow> NewSecurityStateSpec | Some cur \<Rightarrow> cur)"

text \<open>The posture that \<^verbatim>\<open>Run\<close> computes from the two firmware booleans.\<close>

definition posture :: "env \<Rightarrow> bool" where
  "posture e = (GetSecureBoot e \<and> \<not> GetSetupMode e)"

subsection \<open>Concrete runs\<close>

text \<open>
  A machine with secure boot enabled, out of setup mode, no key file, and a runtime that
  accepts every write; one scheduling event pending and no resource yet.
\<close>

definition example_env :: env where
  "example_env =
     \<lparr>GetSecureBoot = True, GetSetupMode = False, ReadFile = Inl NotExist,
      Decode = (\<lambda>d. (None, d)), modify_error = (\<lambda>n. None)\<rparr>"

definition example_runtime :: runtime where
  "example_runtime = \<lparr>signals = [Event], resource = None, calls = 0, trace = []\<rparr>"

text \<open>
  Variants of the example: a key file whose content holds no PEM block, a key file that
  cannot be read, and a key file whose PEM block wraps two bytes that are no certificate.
\<close>

definition undecodable_env :: env where
  "undecodable_env = example_env\<lparr>ReadFile := Inr [0x6e, 0x6f], Decode := (\<lambda>d. (None, d))\<rparr>"

definition unreadable_env :: env where
  "unreadable_env = example_env\<lparr>ReadFile := Inl (OtherReadError ''permission denied'')\<rparr>"

definition garbage_block_env :: env where
  "garbage_block_env =
     example_env\<lparr>ReadFile := Inr [0x2d, 0x2d],
                 Decode := (\<lambda>d. (Some \<lparr>Type = ''CERTIFICATE'', Headers = [], Bytes = [0x00, 0xff]\<rparr>, d))\<rparr>"

text \<open>
  A key file holding one PEM block, whose base64 payload \<^verbatim>\<open>AP8=\<close> is the two bytes 00 ff
  and is no certificate, followed by further data; the decoder answers for this content.
\<close>

definition pem_content :: "byte list" where
  "pem_content =
     map of_char (''-----BEGIN CERTIFICATE-----'' @ [CHR 0x0A] @ ''AP8='' @ [CHR 0x0A] @
                  ''-----END CERTIFICATE-----'' @ [CHR 0x0A] @ ''trailing data'')"

definition wrapped_env :: env where
  "wrapped_env =
     example_env\<lparr>ReadFile := Inr pem_content,
                 Decode := (\<lambda>d. if d = pem_content
                                 then (Some \<lparr>Type = ''CERTIFICATE'', Headers = [], Bytes = [0x00, 0xff]\<rparr>,
                                       map of_char ''trailing data'')
                                 else (None, d))\<rparr>"

text \<open>
  The two-byte key file again, with a runtime that rejects the second call of the modify
  primitive.
\<close>

definition rejecting_env :: env where
  "rejecting_env =
     garbage_block_env\<lparr>modify_error := (\<lambda>n. if n = 1 then Some (ModifyError ''conflict'') else None)\<rparr>"

section \<open>Properties\<close>

lemmas run_defs = Run_def WriterModify_def effects_def Let_def prior_def posture_def

lemmas example_defs = example_env_def example_runtime_def NewSecurityStateSpec_def

lemmas run_splits = list.splits signal.splits option.splits sum.splits

subsection \<open>Secure-boot posture\<close>

text \<open>
  C1. Whatever the two firmware booleans are, every resource value that \<^verbatim>\<open>Run\<close> publishes
  has \<open>secureBoot\<close> equal to "secure boot enabled and not setup mode": true exactly when
  enabled is true and setup mode is false, false for the three other combinations. And
  when a scheduling event arrives first and the runtime accepts the first write, \<^verbatim>\<open>Run\<close>
  does publish: its first effect is that write, and the resource it leaves behind
  carries the posture.
\<close>

theorem secureBoot_published:
  "(\<forall>st. Modified st \<in> set (effects e rt) \<longrightarrow>
      SecureBoot st = (GetSecureBoot e \<and> \<not> GetSetupMode e)) \<and>
   (signals rt = Event # pending \<longrightarrow> modify_error e (calls rt) = None \<longrightarrow>
      effects e rt \<noteq> [] \<and>
      hd (effects e rt) = Modified (posture_mutation (GetSecureBoot e \<and> \<not> GetSetupMode e) (prior rt)) \<and>
      (\<exists>st. resource (snd (Run e rt)) = Some st \<and>
            SecureBoot st = (GetSecureBoot e \<and> \<not> GetSetupMode e)))"
  by (auto simp: run_defs posture_mutation_def fingerprint_mutation_def split: run_splits)

theorem secureBoot_published_witness:
  "signals example_runtime = Event # [] \<and>
   modify_error example_env (calls example_runtime) = None \<and>
   Modified \<lparr>SecureBoot = True, PCRSigningKeyFingerprint = []\<rparr>
     \<in> set (effects example_env example_runtime) \<and>
   SecureBoot \<lparr>SecureBoot = True, PCRSigningKeyFingerprint = []\<rparr>
     = (GetSecureBoot example_env \<and> \<not> GetSetupMode example_env) \<and>
   resource (snd (Run example_env example_runtime))
     = Some \<lparr>SecureBoot = True, PCRSigningKeyFingerprint = []\<rparr> \<and>
   resource (snd (Run (example_env\<lparr>GetSetupMode := True\<rparr>) example_runtime))
     = Some \<lparr>SecureBoot = False, PCRSigningKeyFingerprint = []\<rparr> \<and>
   resource (snd (Run (example_env\<lparr>GetSecureBoot := False\<rparr>) example_runtime))
     = Some \<lparr>SecureBoot = False, PCRSigningKeyFingerprint = []\<rparr> \<and>
   resource (snd (Run (example_env\<lparr>GetSecureBoot := False, GetSetupMode := True\<rparr>) example_runtime))
     = Some \<lparr>SecureBoot = False, PCRSigningKeyFingerprint = []\<rparr>"
  using secureBoot_published [of example_env example_runtime "[]"]
  by (simp add: example_defs run_defs posture_mutation_def)

subsection \<open>Cancellation\<close>

text \<open>
  C6, as stated, speaks of the order of arrival: cancellation arrives before the first
  scheduling event. That does not decide what the \<^verbatim>\<open>select\<close> takes. When the context is
  cancelled first and an event is queued before \<^verbatim>\<open>Run\<close> reaches the \<^verbatim>\<open>select\<close>, both cases
  are ready and the \<^verbatim>\<open>select\<close> may take the event: \<^verbatim>\<open>Run\<close> then writes the posture.
\<close>

theorem cancel_before_event_counterexample:
  "select_order [Done, Event] Event [] = [Event, Done] \<and>
   fst (Run example_env (example_runtime\<lparr>signals := select_order [Done, Event] Event []\<rparr>))
     = Returned None \<and>
   effects example_env (example_runtime\<lparr>signals := select_order [Done, Event] Event []\<rparr>)
     = [Modified \<lparr>SecureBoot = True, PCRSigningKeyFingerprint = []\<rparr>, FileRead (Inl NotExist)] \<and>
   length (filter is_write
     (effects example_env (example_runtime\<lparr>signals := select_order [Done, Event] Event []\<rparr>))) = 1 \<and>
   resource (snd (Run example_env (example_runtime\<lparr>signals := select_order [Done, Event] Event []\<rparr>)))
     = Some \<lparr>SecureBoot = True, PCRSigningKeyFingerprint = []\<rparr>"
  by (simp add: select_order_def example_defs run_defs posture_mutation_def)

lemma select_order_cancelled:
  assumes "ready @ later = Done # others" and "Event \<notin> set ready \<or> pick = Done"
  shows "\<exists>rest. select_order ready pick later = Done # rest"
proof (cases "Done \<in> set ready \<and> Event \<in> set ready")
  case True
  with assms(2) have "pick = Done" by simp
  with True show ?thesis by (simp add: select_order_def)
next
  case False
  then have "select_order ready pick later = ready @ later"
    by (simp only: select_order_def if_False)
  with assms(1) show ?thesis by simp
qed

text \<open>
  C6, amended. If the \<^verbatim>\<open>select\<close> takes the cancellation, \<^verbatim>\<open>Run\<close> returns \<^verbatim>\<open>nil\<close> and has no
  effect at all: no call of the modify primitive, the resource and the pending signals
  as they were. With cancellation the first signal to arrive, the \<^verbatim>\<open>select\<close> takes it
  whenever no scheduling event is queued at the moment \<^verbatim>\<open>Run\<close> reaches the \<^verbatim>\<open>select\<close>, and
  also when one is queued and the random choice falls on the cancellation.
\<close>

theorem cancel_before_event:
  "(signals rt = Done # rest \<longrightarrow>
      Run e rt = (Returned None, rt) \<and> effects e rt = [] \<and>
      filter is_modify_call (effects e rt) = [] \<and>
      resource (snd (Run e rt)) = resource rt \<and> calls (snd (Run e rt)) = calls rt) \<and>
   (ready @ later = Done # others \<longrightarrow> Event \<notin> set ready \<longrightarrow>
      Run e (rt\<lparr>signals := select_order ready pick later\<rparr>)
        = (Returned None, rt\<lparr>signals := select_order ready pick later\<rparr>) \<and>
      effects e (rt\<lparr>signals := select_order ready pick later\<rparr>) = []) \<and>
   (ready @ later = Done # others \<longrightarrow> pick = Done \<longrightarrow>
      Run e (rt\<lparr>signals := select_order ready pick later\<rparr>)
        = (Returned None, rt\<lparr>signals := select_order ready pick later\<rparr>) \<and>
      effects e (rt\<lparr>signals := select_order ready pick later\<rparr>) = [])"
proof (intro conjI impI)
  assume "signals rt = Done # rest"
  then show "Run e rt = (Returned None, rt)" "effects e rt = []"
    "filter is_modify_call (effects e rt) = []"
    "resource (snd (Run e rt)) = resource rt" "calls (snd (Run e rt)) = calls rt"
    by (simp_all add: run_defs)
next
  assume a: "ready @ later = Done # others" "Event \<notin> set ready"
  then obtain r where r: "select_order ready pick later = Done # r"
    using select_order_cancelled [of ready later others pick] by blast
  show "Run e (rt\<lparr>signals := select_order ready pick later\<rparr>)
        = (Returned None, rt\<lparr>signals := select_order ready pick later\<rparr>)"
    unfolding r by (simp add: Run_def)
  show "effects e (rt\<lparr>signals := select_order ready pick later\<rparr>) = []"
    unfolding r by (simp add: Run_def effects_def)
next
  assume a: "ready @ later = Done # others" "pick = Done"
  then obtain r where r: "select_order ready pick later = Done # r"
    using select_order_cancelled [of ready later others pick] by blast
  show "Run e (rt\<lparr>signals := select_order ready pick later\<rparr>)
        = (Returned None, rt\<lparr>signals := select_order ready pick later\<rparr>)"
    unfolding r by (simp add: Run_def)
  show "effects e (rt\<lparr>signals := select_order ready pick later\<rparr>) = []"
    unfolding r by (simp add: Run_def effects_def)
qed

theorem cancel_before_event_witness:
  "signals (example_runtime\<lparr>signals := [Done, Event]\<rparr>) = Done # [Event] \<and>
   Run example_env (example_runtime\<lparr>signals := [Done, Event]\<rparr>)
     = (Returned None, example_runtime\<lparr>signals := [Done, Event]\<rparr>) \<and>
   effects example_env (example_runtime\<lparr>signals := [Done, Event]\<rparr>) = [] \<and>
   [Done] @ [Event] = Done # [Event] \<and> Event \<notin> set [Done] \<and>
   select_order [Done] Event [Event] = [Done, Event] \<and>
   effects example_env (example_runtime\<lparr>signals := select_order [Done] Event [Event]\<rparr>) = [] \<and>
   [Done, Event] @ [] = Done # [Event] \<and>
   select_order [Done, Event] Done [] = [Done, Event] \<and>
   effects example_env (example_runtime\<lparr>signals := select_order [Done, Event] Done []\<rparr>) = [] \<and>
   fst (Run example_env (example_runtime\<lparr>signals := select_order [Done, Event] Done []\<rparr>))
     = Returned None"
  using cancel_before_event [of "example_runtime\<lparr>signals := [Done, Event]\<rparr>" "[Event]" example_env
          "[Done]" "[Event]" "[Event]" Event]
    cancel_before_event [of "example_runtime\<lparr>signals := [Done, Event]\<rparr>" "[Event]" example_env
          "[Done, Event]" "[]" "[Event]" Done]
  by (simp add: select_order_def example_defs)

subsection \<open>The two mutations\<close>

text \<open>
  C8. The closure of the fingerprint write changes the field
  \<open>pcrSigningKeyFingerprint\<close> and nothing else: for every prior state the field
  \<open>secureBoot\<close> and every further field are as before. Through the modify primitive, a
  resource that exists is replaced by itself with the new fingerprint, and one that does
  not exist is created as the default with the new fingerprint.
\<close>

theorem fingerprint_write_frame:
  "SecureBoot (fingerprint_mutation cert state) = SecureBoot state \<and>
   SecurityStateSpec.more (fingerprint_mutation cert state) = SecurityStateSpec.more state \<and>
   fingerprint_mutation cert state
     = state\<lparr>PCRSigningKeyFingerprint := x509CertFingerprint cert\<rparr> \<and>
   (resource rt = Some cur \<longrightarrow> modify_error e (calls rt) = None \<longrightarrow>
      resource (snd (WriterModify e rt new (fingerprint_mutation cert)))
        = Some (cur\<lparr>PCRSigningKeyFingerprint := x509CertFingerprint cert\<rparr>)) \<and>
   (resource rt = None \<longrightarrow> modify_error e (calls rt) = None \<longrightarrow>
      resource (snd (WriterModify e rt new (fingerprint_mutation cert)))
        = Some (new\<lparr>PCRSigningKeyFingerprint := x509CertFingerprint cert\<rparr>))"
  by (simp add: fingerprint_mutation_def WriterModify_def Let_def)

theorem fingerprint_write_frame_witness:
  "resource (example_runtime\<lparr>resource := Some \<lparr>SecureBoot = True, PCRSigningKeyFingerprint = ''AB''\<rparr>\<rparr>)
     = Some \<lparr>SecureBoot = True, PCRSigningKeyFingerprint = ''AB''\<rparr> \<and>
   modify_error example_env
     (calls (example_runtime\<lparr>resource := Some \<lparr>SecureBoot = True, PCRSigningKeyFingerprint = ''AB''\<rparr>\<rparr>))
     = None \<and>
   resource (snd (WriterModify example_env
       (example_runtime\<lparr>resource := Some \<lparr>SecureBoot = True, PCRSigningKeyFingerprint = ''AB''\<rparr>\<rparr>)
       NewSecurityStateSpec (fingerprint_mutation \<lparr>Raw = []\<rparr>)))
     = Some \<lparr>SecureBoot = True, PCRSigningKeyFingerprint = x509CertFingerprint \<lparr>Raw = []\<rparr>\<rparr> \<and>
   resource example_runtime = None \<and>
   modify_error example_env (calls example_runtime) = None \<and>
   resource (snd (WriterModify example_env example_runtime NewSecurityStateSpec
       (fingerprint_mutation \<lparr>Raw = []\<rparr>)))
     = Some \<lparr>SecureBoot = False, PCRSigningKeyFingerprint = x509CertFingerprint \<lparr>Raw = []\<rparr>\<rparr>"
  using fingerprint_write_frame
    [of "\<lparr>Raw = []\<rparr>" "\<lparr>SecureBoot = True, PCRSigningKeyFingerprint = ''AB''\<rparr>"
        "example_runtime\<lparr>resource := Some \<lparr>SecureBoot = True, PCRSigningKeyFingerprint = ''AB''\<rparr>\<rparr>"
        "\<lparr>SecureBoot = True, PCRSigningKeyFingerprint = ''AB''\<rparr>"
        example_env NewSecurityStateSpec]
    fingerprint_write_frame
    [of "\<lparr>Raw = []\<rparr>" "\<lparr>SecureBoot = True, PCRSigningKeyFingerprint = ''AB''\<rparr>"
        example_runtime "\<lparr>SecureBoot = True, PCRSigningKeyFingerprint = ''AB''\<rparr>"
        example_env NewSecurityStateSpec]
  by (simp add: example_defs)

text \<open>
  C9. The posture mutation is idempotent: applied twice with the same posture it gives
  the state that one application gives, whatever the state and the posture. Through the
  modify primitive, when the runtime accepts both calls, the second call leaves the
  resource as the first one made it.
\<close>

theorem posture_write_idempotent:
  "posture_mutation v (posture_mutation v state) = posture_mutation v state \<and>
   (modify_error e (calls rt) = None \<longrightarrow> modify_error e (Suc (calls rt)) = None \<longrightarrow>
      resource (snd (WriterModify e (snd (WriterModify e rt new (posture_mutation v))) new
                       (posture_mutation v)))
        = resource (snd (WriterModify e rt new (posture_mutation v))))"
  by (simp add: posture_mutation_def WriterModify_def Let_def)

theorem posture_write_idempotent_witness:
  "modify_error example_env (calls example_runtime) = None \<and>
   modify_error example_env (Suc (calls example_runtime)) = None \<and>
   resource (snd (WriterModify example_env
       (snd (WriterModify example_env example_runtime NewSecurityStateSpec (posture_mutation True)))
       NewSecurityStateSpec (posture_mutation True)))
     = Some \<lparr>SecureBoot = True, PCRSigningKeyFingerprint = []\<rparr> \<and>
   resource (snd (WriterModify example_env example_runtime NewSecurityStateSpec (posture_mutation True)))
     = Some \<lparr>SecureBoot = True, PCRSigningKeyFingerprint = []\<rparr>"
  using posture_write_idempotent
    [of True "\<lparr>SecureBoot = False, PCRSigningKeyFingerprint = []\<rparr>"
        example_env example_runtime NewSecurityStateSpec]
  by (simp add: example_defs WriterModify_def posture_mutation_def Let_def)

subsection \<open>The format of the fingerprint\<close>

text \<open>
  The digest has 32 bytes and its hex encoding 64 characters, whatever the data; the
  loop of \<^verbatim>\<open>x509CertFingerprint\<close> computes both readings of the specification.
\<close>

lemma length_digest_bytes: "length (digest_bytes hs) = 32"
  by (induct hs rule: digest_bytes.induct) (simp add: PutUint32_def)

lemma length_Sum256: "length (Sum256 p) = 32"
  by (simp add: Sum256_def length_digest_bytes)

lemma length_EncodeToString: "length (EncodeToString src) = 2 * length src"
  by (induction src) simp_all

lemma upper_char_colon: "upper_char (CHR '':'') = CHR '':''"
  by (simp add: upper_char_def)

lemma upper_hextable: "map upper_char hextable = ''0123456789ABCDEF''"
  by code_simp

lemma fingerprint_loop_insert:
  "fingerprint_loop i s buf =
     buf @ map upper_char
             (concat (map (\<lambda>(j, c). if even j \<and> j \<noteq> 0 then [CHR '':'', c] else [c])
                          (enumerate i s)))"
proof (induction s arbitrary: i buf)
  case Nil
  show ?case by simp
next
  case (Cons c s)
  show ?case
    by (simp add: Cons.IH ToUpper_def upper_char_colon even_iff_mod_2_eq_zero)
qed

lemma fingerprint_loop_groups:
  "even i \<Longrightarrow> 0 < i \<Longrightarrow>
     fingerprint_loop i (EncodeToString src) buf
       = buf @ concat (map (\<lambda>v. CHR '':'' # hex_group v) src)"
proof (induction src arbitrary: i buf)
  case Nil
  show ?case by simp
next
  case (Cons v src)
  from Cons.prems have "even (i + 1 + 1)" "0 < i + 1 + 1" "i mod 2 = 0" "(i + 1) mod 2 \<noteq> 0"
    by (simp_all add: even_iff_mod_2_eq_zero) presburger
  then show ?case
    using Cons.prems by (simp add: Cons.IH ToUpper_def hex_group_def)
qed

lemma join_colon_Cons: "join_colon (g # gs) = g @ concat (map (\<lambda>h. CHR '':'' # h) gs)"
  by (induction gs arbitrary: g) simp_all

lemma fingerprint_loop_join:
  "fingerprint_loop 0 (EncodeToString src) [] = join_colon (map hex_group src)"
proof (cases src)
  case Nil
  then show ?thesis by simp
next
  case (Cons v rest)
  have "fingerprint_loop 0 (EncodeToString (v # rest)) []
          = fingerprint_loop 2 (EncodeToString rest) (hex_group v)"
    by (simp add: ToUpper_def hex_group_def numeral_2_eq_2)
  also have "\<dots> = hex_group v @ concat (map (\<lambda>v. CHR '':'' # hex_group v) rest)"
    by (rule fingerprint_loop_groups) simp_all
  also have "\<dots> = join_colon (map hex_group (v # rest))"
    by (simp add: join_colon_Cons comp_def)
  finally show ?thesis using Cons by simp
qed

lemma hi_nibble_bound: "unat (drop_bit 4 (v :: byte)) < 16"
proof -
  have "unat v < 2 ^ LENGTH(8)" by (rule unsigned_less)
  then have "unat v div 16 < 16" by simp
  then show ?thesis by (simp add: drop_bit_eq_div unat_div)
qed

lemma lo_nibble_bound: "unat ((v :: byte) AND 0x0f) < 16"
proof -
  have "v AND 0x0f \<le> 0x0f" by (rule word_and_le1)
  then have "unat (v AND 0x0f) \<le> unat (0x0f :: byte)" by (simp only: word_le_nat_alt)
  then show ?thesis by simp
qed

lemma upper_hex_digit:
  assumes "n < 16"
  shows "upper_char (hextable ! n) \<in> set ''0123456789ABCDEF''"
proof -
  have len: "length hextable = 16" by (simp add: hextable_def)
  with assms have "upper_char (hextable ! n) = map upper_char hextable ! n" by simp
  moreover have "n < length (map upper_char hextable)" using assms len by simp
  ultimately have "upper_char (hextable ! n) \<in> set (map upper_char hextable)"
    by (metis nth_mem)
  then show ?thesis by (simp only: upper_hextable)
qed

lemma hex_group_shape:
  "length (hex_group v) = 2 \<and> set (hex_group v) \<subseteq> set ''0123456789ABCDEF''"
  using upper_hex_digit [OF hi_nibble_bound [of v]] upper_hex_digit [OF lo_nibble_bound [of v]]
  by (simp add: hex_group_def)

lemma length_join_colon:
  "list_all (\<lambda>g. length g = 2) gs \<Longrightarrow> length (join_colon gs) = 3 * length gs - 1"
  by (induction gs rule: join_colon.induct) simp_all

lemma colons_join_colon:
  "list_all (\<lambda>g. CHR '':'' \<notin> set g) gs \<Longrightarrow>
     length (filter (\<lambda>c. c = CHR '':'') (join_colon gs)) = length gs - 1"
  by (induction gs rule: join_colon.induct) (auto simp: filter_empty_conv)

text \<open>
  C2. For every byte sequence as the certificate's raw bytes, \<^verbatim>\<open>x509CertFingerprint\<close>
  returns the 64 hex characters of the SHA-256 digest of those bytes with a colon
  inserted before every even-indexed position except position 0 and every character in
  upper case; this is the colon-separated sequence of one two-character group of
  upper-case hex digits for each of the 32 digest bytes, with 31 colons and 95
  characters in all.
\<close>

theorem x509CertFingerprint_format:
  "x509CertFingerprint cert = fingerprint_spec (Raw cert) \<and>
   length (EncodeToString (Sum256 (Raw cert))) = 64 \<and>
   x509CertFingerprint cert = join_colon (map hex_group (Sum256 (Raw cert))) \<and>
   length (map hex_group (Sum256 (Raw cert))) = 32 \<and>
   list_all (\<lambda>g. length g = 2 \<and> set g \<subseteq> set ''0123456789ABCDEF'')
     (map hex_group (Sum256 (Raw cert))) \<and>
   length (filter (\<lambda>c. c = CHR '':'') (x509CertFingerprint cert)) = 31 \<and>
   length (x509CertFingerprint cert) = 95"
proof -
  let ?gs = "map hex_group (Sum256 (Raw cert))"
  have spec: "x509CertFingerprint cert = fingerprint_spec (Raw cert)"
    by (simp add: x509CertFingerprint_def fingerprint_spec_def insert_colons_def
        fingerprint_loop_insert)
  have hex: "length (EncodeToString (Sum256 (Raw cert))) = 64"
    by (simp add: length_EncodeToString length_Sum256)
  have join: "x509CertFingerprint cert = join_colon ?gs"
    by (simp add: x509CertFingerprint_def fingerprint_loop_join)
  have n: "length ?gs = 32"
    by (simp add: length_Sum256)
  have shape: "list_all (\<lambda>g. length g = 2 \<and> set g \<subseteq> set ''0123456789ABCDEF'') ?gs"
    unfolding list_all_iff using hex_group_shape by auto
  have two: "list_all (\<lambda>g. length g = 2) ?gs"
    unfolding list_all_iff using hex_group_shape by auto
  have nocolon: "list_all (\<lambda>g. CHR '':'' \<notin> set g) ?gs"
    unfolding list_all_iff using hex_group_shape by fastforce
  have colons: "length (filter (\<lambda>c. c = CHR '':'') (x509CertFingerprint cert)) = 31"
    unfolding join using colons_join_colon [OF nocolon] n by simp
  have len: "length (x509CertFingerprint cert) = 95"
    unfolding join using length_join_colon [OF two] n by simp
  from spec hex join n shape colons len show ?thesis by blast
qed

text \<open>
  The digest of the empty byte sequence, its hex encoding and the run of the loop over
  it, each evaluated once.
\<close>

lemma hex_empty_digest:
  "EncodeToString (Sum256 [])
     = ''e3b0c44298fc1c149afbf4c8996fb92427ae41e4649b934ca495991b7852b855''"
  by code_simp

lemma loop_empty_digest:
  "fingerprint_loop 0 ''e3b0c44298fc1c149afbf4c8996fb92427ae41e4649b934ca495991b7852b855'' []
     = ''E3:B0:C4:42:98:FC:1C:14:9A:FB:F4:C8:99:6F:B9:24:27:AE:41:E4:64:9B:93:4C:A4:95:99:1B:78:52:B8:55''"
  by code_simp

lemma x509CertFingerprint_empty:
  "x509CertFingerprint \<lparr>Raw = []\<rparr>
     = ''E3:B0:C4:42:98:FC:1C:14:9A:FB:F4:C8:99:6F:B9:24:27:AE:41:E4:64:9B:93:4C:A4:95:99:1B:78:52:B8:55''"
  unfolding x509CertFingerprint_def Let_def Certificate.simps hex_empty_digest
  by (rule loop_empty_digest)

text \<open>
  C5, as stated, takes the digest of the empty byte sequence to be the 63 characters
  \<^verbatim>\<open>e3b0c442...7852b85\<close> and the fingerprint to end in \<^verbatim>\<open>B8:5\<close>. The code returns neither:
  the reference of the claim lacks the last hex digit.
\<close>

theorem empty_fingerprint_counterexample:
  "EncodeToString (Sum256 []) \<noteq> ''e3b0c44298fc1c149afbf4c8996fb92427ae41e4649b934ca495991b7852b85'' \<and>
   x509CertFingerprint \<lparr>Raw = []\<rparr>
     \<noteq> ''E3:B0:C4:42:98:FC:1C:14:9A:FB:F4:C8:99:6F:B9:24:27:AE:41:E4:64:9B:93:4C:A4:95:99:1B:78:52:B8:5''"
  unfolding x509CertFingerprint_empty hex_empty_digest
  by simp

text \<open>
  C5, amended. For the empty byte sequence as certificate bytes, the hex encoding of the
  SHA-256 digest is the 64 characters \<^verbatim>\<open>e3b0c442...7852b855\<close>, and the fingerprint is that
  string grouped in pairs and in upper case, ending in \<^verbatim>\<open>B8:55\<close>.
\<close>

theorem empty_fingerprint:
  "EncodeToString (Sum256 []) = ''e3b0c44298fc1c149afbf4c8996fb92427ae41e4649b934ca495991b7852b855'' \<and>
   x509CertFingerprint \<lparr>Raw = []\<rparr>
     = ''E3:B0:C4:42:98:FC:1C:14:9A:FB:F4:C8:99:6F:B9:24:27:AE:41:E4:64:9B:93:4C:A4:95:99:1B:78:52:B8:55''"
  unfolding x509CertFingerprint_empty hex_empty_digest
  by simp

subsection \<open>The paths of Run\<close>

text \<open>
  \<^verbatim>\<open>Run\<close> has seven paths; each lemma gives the result and the final runtime state of
  one of them, \<open>Run_paths\<close> says that there is no other, and \<open>effects_paths\<close> lists the
  effects of each.
\<close>

lemma secureBootState_eq: "(if a \<and> \<not> b then True else False) = (a \<and> \<not> b)"
  by simp

lemmas run_simps = Run_def WriterModify_def Let_def prior_def posture_def secureBootState_eq

lemma Run_blocked: "signals rt = [] \<Longrightarrow> Run e rt = (Blocked, rt)"
  by (simp add: Run_def)

lemma Run_cancelled: "signals rt = Done # pending \<Longrightarrow> Run e rt = (Returned None, rt)"
  by (simp add: Run_def)

lemma Run_posture_rejected:
  "signals rt = Event # pending \<Longrightarrow> modify_error e (calls rt) = Some err \<Longrightarrow>
   Run e rt = (Returned (Some err),
               rt\<lparr>signals := pending, calls := Suc (calls rt),
                  trace := trace rt @ [ModifyFailed err]\<rparr>)"
  by (simp add: run_simps del: if_bool_eq_conj if_bool_eq_disj)

lemma Run_read_failed:
  "signals rt = Event # pending \<Longrightarrow> modify_error e (calls rt) = None \<Longrightarrow>
   ReadFile e = Inl r \<Longrightarrow>
   Run e rt = (Returned None,
               rt\<lparr>signals := pending, resource := Some (posture_mutation (posture e) (prior rt)),
                  calls := Suc (calls rt),
                  trace := trace rt @ [Modified (posture_mutation (posture e) (prior rt)),
                                       FileRead (Inl r)]\<rparr>)"
  by (simp add: run_simps del: if_bool_eq_conj if_bool_eq_disj)

lemma Run_no_block:
  "signals rt = Event # pending \<Longrightarrow> modify_error e (calls rt) = None \<Longrightarrow>
   ReadFile e = Inr data \<Longrightarrow> fst (Decode e data) = None \<Longrightarrow>
   Run e rt = (Returned (Some (Errorf ''failed to decode PEM block for PCR public key'')),
               rt\<lparr>signals := pending, resource := Some (posture_mutation (posture e) (prior rt)),
                  calls := Suc (calls rt),
                  trace := trace rt @ [Modified (posture_mutation (posture e) (prior rt)),
                                       FileRead (Inr data), PemDecoded None]\<rparr>)"
  by (simp add: run_simps del: if_bool_eq_conj if_bool_eq_disj)

lemma Run_fingerprint_rejected:
  "signals rt = Event # pending \<Longrightarrow> modify_error e (calls rt) = None \<Longrightarrow>
   ReadFile e = Inr data \<Longrightarrow> fst (Decode e data) = Some blk \<Longrightarrow>
   modify_error e (Suc (calls rt)) = Some err \<Longrightarrow>
   Run e rt = (Returned (Some err),
               rt\<lparr>signals := pending, resource := Some (posture_mutation (posture e) (prior rt)),
                  calls := Suc (Suc (calls rt)),
                  trace := trace rt @ [Modified (posture_mutation (posture e) (prior rt)),
                                       FileRead (Inr data), PemDecoded (Some blk),
                                       ModifyFailed err]\<rparr>)"
  by (simp add: run_simps del: if_bool_eq_conj if_bool_eq_disj)

lemma Run_fingerprint_published:
  "signals rt = Event # pending \<Longrightarrow> modify_error e (calls rt) = None \<Longrightarrow>
   ReadFile e = Inr data \<Longrightarrow> fst (Decode e data) = Some blk \<Longrightarrow>
   modify_error e (Suc (calls rt)) = None \<Longrightarrow>
   Run e rt = (Returned None,
               rt\<lparr>signals := pending,
                  resource := Some (fingerprint_mutation \<lparr>Raw = Bytes blk\<rparr>
                                      (posture_mutation (posture e) (prior rt))),
                  calls := Suc (Suc (calls rt)),
                  trace := trace rt @ [Modified (posture_mutation (posture e) (prior rt)),
                                       FileRead (Inr data), PemDecoded (Some blk),
                                       Modified (fingerprint_mutation \<lparr>Raw = Bytes blk\<rparr>
                                                   (posture_mutation (posture e) (prior rt)))]\<rparr>)"
  by (simp add: run_simps del: if_bool_eq_conj if_bool_eq_disj)


lemma Run_paths:
  obtains (blocked) "signals rt = []"
  | (cancelled) pending where "signals rt = Done # pending"
  | (posture_rejected) pending err where "signals rt = Event # pending"
      "modify_error e (calls rt) = Some err"
  | (read_failed) pending r where "signals rt = Event # pending"
      "modify_error e (calls rt) = None" "ReadFile e = Inl r"
  | (no_block) pending data where "signals rt = Event # pending"
      "modify_error e (calls rt) = None" "ReadFile e = Inr data" "fst (Decode e data) = None"
  | (fingerprint_rejected) pending data blk err where "signals rt = Event # pending"
      "modify_error e (calls rt) = None" "ReadFile e = Inr data" "fst (Decode e data) = Some blk"
      "modify_error e (Suc (calls rt)) = Some err"
  | (fingerprint_published) pending data blk where "signals rt = Event # pending"
      "modify_error e (calls rt) = None" "ReadFile e = Inr data" "fst (Decode e data) = Some blk"
      "modify_error e (Suc (calls rt)) = None"
proof (cases "signals rt")
  case Nil
  then show ?thesis by (rule blocked)
next
  case (Cons s pending)
  show ?thesis
  proof (cases s)
    case Done
    with Cons show ?thesis by (auto intro: cancelled)
  next
    case Event
    with Cons have ev: "signals rt = Event # pending" by simp
    show ?thesis
    proof (cases "modify_error e (calls rt)")
      case (Some err)
      with ev show ?thesis by (rule posture_rejected)
    next
      case None
      note w1 = this
      show ?thesis
      proof (cases "ReadFile e")
        case (Inl r)
        with ev w1 show ?thesis by (rule read_failed)
      next
        case (Inr data)
        note rd = this
        show ?thesis
        proof (cases "fst (Decode e data)")
          case None
          with ev w1 rd show ?thesis by (rule no_block)
        next
          case (Some blk)
          note dec = this
          show ?thesis
          proof (cases "modify_error e (Suc (calls rt))")
            case None
            with ev w1 rd dec show ?thesis by (rule fingerprint_published)
          next
            case (Some err)
            with ev w1 rd dec show ?thesis by (rule fingerprint_rejected)
          qed
        qed
      qed
    qed
  qed
qed

lemma effects_paths:
  "signals rt = [] \<Longrightarrow> effects e rt = []"
  "signals rt = Done # pending \<Longrightarrow> effects e rt = []"
  "signals rt = Event # pending \<Longrightarrow> modify_error e (calls rt) = Some err \<Longrightarrow>
     effects e rt = [ModifyFailed err]"
  "signals rt = Event # pending \<Longrightarrow> modify_error e (calls rt) = None \<Longrightarrow>
     ReadFile e = Inl r \<Longrightarrow>
     effects e rt = [Modified (posture_mutation (posture e) (prior rt)), FileRead (Inl r)]"
  "signals rt = Event # pending \<Longrightarrow> modify_error e (calls rt) = None \<Longrightarrow>
     ReadFile e = Inr data \<Longrightarrow> fst (Decode e data) = None \<Longrightarrow>
     effects e rt = [Modified (posture_mutation (posture e) (prior rt)), FileRead (Inr data),
                     PemDecoded None]"
  "signals rt = Event # pending \<Longrightarrow> modify_error e (calls rt) = None \<Longrightarrow>
     ReadFile e = Inr data \<Longrightarrow> fst (Decode e data) = Some blk \<Longrightarrow>
     modify_error e (Suc (calls rt)) = Some err \<Longrightarrow>
     effects e rt = [Modified (posture_mutation (posture e) (prior rt)), FileRead (Inr data),
                     PemDecoded (Some blk), ModifyFailed err]"
  "signals rt = Event # pending \<Longrightarrow> modify_error e (calls rt) = None \<Longrightarrow>
     ReadFile e = Inr data \<Longrightarrow> fst (Decode e data) = Some blk \<Longrightarrow>
     modify_error e (Suc (calls rt)) = None \<Longrightarrow>
     effects e rt = [Modified (posture_mutation (posture e) (prior rt)), FileRead (Inr data),
                     PemDecoded (Some blk),
                     Modified (fingerprint_mutation \<lparr>Raw = Bytes blk\<rparr>
                                 (posture_mutation (posture e) (prior rt)))]"
  by (simp_all add: effects_def Run_blocked Run_cancelled Run_posture_rejected Run_read_failed
        Run_no_block Run_fingerprint_rejected Run_fingerprint_published)

subsection \<open>The signing key file\<close>

text \<open>
  C3. Whenever a scheduling event is taken, the runtime accepts the posture write, the
  key file is read successfully and PEM decoding of its content yields no block,
  whatever the firmware booleans and the prior resource are, \<^verbatim>\<open>Run\<close> returns the error
  "failed to decode PEM block for PCR public key". Its effects are exactly the posture
  write, the read and the decoding, in this order: the posture is published before the
  failure, the modify primitive is called once, and the fingerprint of the resource is
  what it was.
\<close>

theorem undecodable_pem_fatal:
  assumes "signals rt = Event # pending" and "modify_error e (calls rt) = None"
    and "ReadFile e = Inr data" and "fst (Decode e data) = None"
  shows "fst (Run e rt) = Returned (Some (Errorf ''failed to decode PEM block for PCR public key'')) \<and>
     effects e rt = [Modified (posture_mutation (posture e) (prior rt)),
                     FileRead (Inr data), PemDecoded None] \<and>
     filter is_write (effects e rt) = [Modified (posture_mutation (posture e) (prior rt))] \<and>
     resource (snd (Run e rt)) = Some (posture_mutation (posture e) (prior rt)) \<and>
     SecureBoot (posture_mutation (posture e) (prior rt)) = (GetSecureBoot e \<and> \<not> GetSetupMode e) \<and>
     PCRSigningKeyFingerprint (posture_mutation (posture e) (prior rt))
       = PCRSigningKeyFingerprint (prior rt) \<and>
     calls (snd (Run e rt)) = Suc (calls rt)"
  using Run_no_block [OF assms] effects_paths(5) [OF assms]
  by (simp add: posture_mutation_def posture_def)

theorem undecodable_pem_fatal_witness:
  "signals example_runtime = Event # [] \<and>
   modify_error undecodable_env (calls example_runtime) = None \<and>
   ReadFile undecodable_env = Inr [0x6e, 0x6f] \<and>
   fst (Decode undecodable_env [0x6e, 0x6f]) = None \<and>
   fst (Run undecodable_env example_runtime)
     = Returned (Some (Errorf ''failed to decode PEM block for PCR public key'')) \<and>
   resource (snd (Run undecodable_env example_runtime))
     = Some \<lparr>SecureBoot = True, PCRSigningKeyFingerprint = []\<rparr> \<and>
   fst (Run (undecodable_env\<lparr>GetSecureBoot := False\<rparr>) example_runtime)
     = Returned (Some (Errorf ''failed to decode PEM block for PCR public key'')) \<and>
   resource (snd (Run (undecodable_env\<lparr>GetSecureBoot := False\<rparr>) example_runtime))
     = Some \<lparr>SecureBoot = False, PCRSigningKeyFingerprint = []\<rparr>"
  using undecodable_pem_fatal [of example_runtime "[]" undecodable_env "[0x6e, 0x6f]"]
    undecodable_pem_fatal [of example_runtime "[]" "undecodable_env\<lparr>GetSecureBoot := False\<rparr>" "[0x6e, 0x6f]"]
  by (simp add: undecodable_env_def example_defs posture_mutation_def posture_def prior_def)

text \<open>
  C4. In every run in which reading the key file fails, with "not found" or with any
  other error, \<^verbatim>\<open>Run\<close> returns \<^verbatim>\<open>nil\<close>, and its effects are exactly the posture write
  and the failed read: no decoding and no second call of the modify primitive. The
  fingerprint of the resource is what it was before the run, hence empty when the
  resource did not exist.
\<close>

theorem read_failure_skips_fingerprint:
  assumes "FileRead (Inl err) \<in> set (effects e rt)"
  shows "ReadFile e = Inl err \<and> fst (Run e rt) = Returned None \<and>
     effects e rt = [Modified (posture_mutation (posture e) (prior rt)), FileRead (Inl err)] \<and>
     resource (snd (Run e rt)) = Some (posture_mutation (posture e) (prior rt)) \<and>
     PCRSigningKeyFingerprint (posture_mutation (posture e) (prior rt))
       = PCRSigningKeyFingerprint (prior rt) \<and>
     (resource rt = None \<longrightarrow> PCRSigningKeyFingerprint (posture_mutation (posture e) (prior rt)) = []) \<and>
     calls (snd (Run e rt)) = Suc (calls rt)"
  using assms
  by (auto simp: run_defs posture_mutation_def NewSecurityStateSpec_def split: run_splits)

theorem read_failure_skips_fingerprint_witness:
  "FileRead (Inl NotExist) \<in> set (effects example_env example_runtime) \<and>
   fst (Run example_env example_runtime) = Returned None \<and>
   resource (snd (Run example_env example_runtime))
     = Some \<lparr>SecureBoot = True, PCRSigningKeyFingerprint = []\<rparr> \<and>
   FileRead (Inl (OtherReadError ''permission denied'')) \<in> set (effects unreadable_env example_runtime) \<and>
   fst (Run unreadable_env example_runtime) = Returned None \<and>
   resource (snd (Run unreadable_env example_runtime))
     = Some \<lparr>SecureBoot = True, PCRSigningKeyFingerprint = []\<rparr>"
  using read_failure_skips_fingerprint [of NotExist example_env example_runtime]
    read_failure_skips_fingerprint [of "OtherReadError ''permission denied''" unreadable_env example_runtime]
  by (simp add: unreadable_env_def example_defs run_defs posture_mutation_def)

text \<open>The rest of the input that \<^verbatim>\<open>pem.Decode\<close> returns is not used.\<close>

lemma Run_ignores_rest:
  "Run (e\<lparr>Decode := \<lambda>d. (fst (Decode e d), rest d)\<rparr>) rt = Run e rt"
proof -
  let ?e = "e\<lparr>Decode := \<lambda>d. (fst (Decode e d), rest d)\<rparr>"
  have same: "modify_error ?e = modify_error e" "ReadFile ?e = ReadFile e"
    "posture ?e = posture e" "\<And>d. fst (Decode ?e d) = fst (Decode e d)"
    by (simp_all add: posture_def)
  show ?thesis
  proof (cases rule: Run_paths [where rt = rt and e = e])
    case blocked
    then show ?thesis by (simp add: Run_blocked)
  next
    case (cancelled pending)
    then show ?thesis by (simp add: Run_cancelled)
  next
    case (posture_rejected pending err)
    then show ?thesis
      using Run_posture_rejected [of rt pending ?e err] Run_posture_rejected [of rt pending e err]
      by (simp only: same)
  next
    case (read_failed pending r)
    then show ?thesis
      using Run_read_failed [of rt pending ?e r] Run_read_failed [of rt pending e r]
      by (simp only: same)
  next
    case (no_block pending data)
    then show ?thesis
      using Run_no_block [of rt pending ?e data] Run_no_block [of rt pending e data]
      by (simp only: same)
  next
    case (fingerprint_rejected pending data blk err)
    then show ?thesis
      using Run_fingerprint_rejected [of rt pending ?e data blk err]
        Run_fingerprint_rejected [of rt pending e data blk err]
      by (simp only: same)
  next
    case (fingerprint_published pending data blk)
    then show ?thesis
      using Run_fingerprint_published [of rt pending ?e data blk]
        Run_fingerprint_published [of rt pending e data blk]
      by (simp only: same)
  qed
qed

text \<open>
  C10. Whenever a scheduling event is taken, the runtime accepts the posture write, the
  key file is read successfully and PEM decoding of its content yields a block, whatever
  the bytes of the block are, whatever follows the block in the file, and whatever the
  firmware booleans and the prior resource are, \<^verbatim>\<open>Run\<close> hands the modify primitive the
  fingerprint of the block's bytes, which is the grouped upper-case hex encoding of
  their SHA-256 digest: nothing parses or validates them. When the runtime accepts that
  write, the fingerprint is published and \<^verbatim>\<open>Run\<close> returns \<^verbatim>\<open>nil\<close>; when the runtime
  rejects it, \<^verbatim>\<open>Run\<close> returns the runtime's error. Changing what the decoder returns as
  the rest of the data changes nothing.
\<close>

theorem pem_block_fingerprinted:
  assumes "signals rt = Event # pending" and "modify_error e (calls rt) = None"
    and "ReadFile e = Inr data" and "fst (Decode e data) = Some blk"
  shows "(modify_error e (Suc (calls rt)) = None \<longrightarrow>
        fst (Run e rt) = Returned None \<and>
        effects e rt = [Modified (posture_mutation (posture e) (prior rt)), FileRead (Inr data),
                        PemDecoded (Some blk),
                        Modified (fingerprint_mutation \<lparr>Raw = Bytes blk\<rparr>
                                    (posture_mutation (posture e) (prior rt)))] \<and>
        resource (snd (Run e rt))
          = Some (fingerprint_mutation \<lparr>Raw = Bytes blk\<rparr> (posture_mutation (posture e) (prior rt)))) \<and>
     (\<forall>err. modify_error e (Suc (calls rt)) = Some err \<longrightarrow> fst (Run e rt) = Returned (Some err)) \<and>
     PCRSigningKeyFingerprint (fingerprint_mutation \<lparr>Raw = Bytes blk\<rparr> st)
       = join_colon (map hex_group (Sum256 (Bytes blk))) \<and>
     Run (e\<lparr>Decode := \<lambda>d. (fst (Decode e d), rest d)\<rparr>) rt = Run e rt"
proof (intro conjI impI allI)
  assume w2: "modify_error e (Suc (calls rt)) = None"
  show "fst (Run e rt) = Returned None"
    using Run_fingerprint_published [OF assms w2] by simp
  show "effects e rt = [Modified (posture_mutation (posture e) (prior rt)), FileRead (Inr data),
                        PemDecoded (Some blk),
                        Modified (fingerprint_mutation \<lparr>Raw = Bytes blk\<rparr>
                                    (posture_mutation (posture e) (prior rt)))]"
    using assms w2 by (rule effects_paths)
  show "resource (snd (Run e rt))
          = Some (fingerprint_mutation \<lparr>Raw = Bytes blk\<rparr> (posture_mutation (posture e) (prior rt)))"
    using Run_fingerprint_published [OF assms w2] by simp
next
  fix err
  assume "modify_error e (Suc (calls rt)) = Some err"
  then show "fst (Run e rt) = Returned (Some err)"
    using Run_fingerprint_rejected [OF assms] by simp
next
  show "PCRSigningKeyFingerprint (fingerprint_mutation \<lparr>Raw = Bytes blk\<rparr> st)
       = join_colon (map hex_group (Sum256 (Bytes blk)))"
    by (simp add: fingerprint_mutation_def x509CertFingerprint_def fingerprint_loop_join)
  show "Run (e\<lparr>Decode := \<lambda>d. (fst (Decode e d), rest d)\<rparr>) rt = Run e rt"
    by (rule Run_ignores_rest)
qed

theorem pem_block_fingerprinted_witness:
  "signals example_runtime = Event # [] \<and>
   modify_error wrapped_env (calls example_runtime) = None \<and>
   ReadFile wrapped_env = Inr pem_content \<and>
   fst (Decode wrapped_env pem_content)
     = Some \<lparr>Type = ''CERTIFICATE'', Headers = [], Bytes = [0x00, 0xff]\<rparr> \<and>
   modify_error wrapped_env (Suc (calls example_runtime)) = None \<and>
   fst (Run wrapped_env example_runtime) = Returned None \<and>
   resource (snd (Run wrapped_env example_runtime))
     = Some \<lparr>SecureBoot = True, PCRSigningKeyFingerprint = x509CertFingerprint \<lparr>Raw = [0x00, 0xff]\<rparr>\<rparr> \<and>
   fst (Run (wrapped_env\<lparr>GetSecureBoot := False\<rparr>) example_runtime) = Returned None \<and>
   resource (snd (Run (wrapped_env\<lparr>GetSecureBoot := False\<rparr>) example_runtime))
     = Some \<lparr>SecureBoot = False, PCRSigningKeyFingerprint = x509CertFingerprint \<lparr>Raw = [0x00, 0xff]\<rparr>\<rparr> \<and>
   modify_error rejecting_env (Suc (calls example_runtime)) = Some (ModifyError ''conflict'') \<and>
   fst (Run rejecting_env example_runtime) = Returned (Some (ModifyError ''conflict''))"
  using pem_block_fingerprinted
    [of example_runtime "[]" wrapped_env pem_content
        "\<lparr>Type = ''CERTIFICATE'', Headers = [], Bytes = [0x00, 0xff]\<rparr>"]
    pem_block_fingerprinted
    [of example_runtime "[]" "wrapped_env\<lparr>GetSecureBoot := False\<rparr>" pem_content
        "\<lparr>Type = ''CERTIFICATE'', Headers = [], Bytes = [0x00, 0xff]\<rparr>"]
    pem_block_fingerprinted
    [of example_runtime "[]" rejecting_env "[0x2d, 0x2d]"
        "\<lparr>Type = ''CERTIFICATE'', Headers = [], Bytes = [0x00, 0xff]\<rparr>"]
  by (simp add: wrapped_env_def rejecting_env_def garbage_block_env_def example_defs
      posture_mutation_def fingerprint_mutation_def posture_def prior_def)

subsection \<open>Single shot\<close>

text \<open>
  C7, as stated, says that \<^verbatim>\<open>Run\<close> returns successfully in any execution. It does not:
  with a scheduling event pending, a runtime that accepts the posture write and a key
  file holding no PEM block, \<^verbatim>\<open>Run\<close> returns an error.
\<close>

theorem single_shot_counterexample:
  "fst (Run undecodable_env example_runtime)
     = Returned (Some (Errorf ''failed to decode PEM block for PCR public key'')) \<and>
   fst (Run undecodable_env example_runtime) \<noteq> Returned None"
  by (simp add: undecodable_env_def example_defs run_defs)

lemma Run_later_event:
  "Run e (rt\<lparr>signals := Event # later\<rparr>)
     = (fst (Run e (rt\<lparr>signals := [Event]\<rparr>)), snd (Run e (rt\<lparr>signals := [Event]\<rparr>))\<lparr>signals := later\<rparr>)"
proof (cases rule: Run_paths [where rt = "rt\<lparr>signals := [Event]\<rparr>" and e = e])
  case blocked
  then show ?thesis by simp
next
  case (cancelled pending)
  then show ?thesis by simp
next
  case (posture_rejected pending err)
  then have a: "modify_error e (calls rt) = Some err" by simp
  show ?thesis
    using Run_posture_rejected [of "rt\<lparr>signals := Event # later\<rparr>" later e err]
      Run_posture_rejected [of "rt\<lparr>signals := [Event]\<rparr>" "[]" e err] a
    by simp
next
  case (read_failed pending r)
  then have a: "modify_error e (calls rt) = None" by simp
  show ?thesis
    using Run_read_failed [of "rt\<lparr>signals := Event # later\<rparr>" later e r]
      Run_read_failed [of "rt\<lparr>signals := [Event]\<rparr>" "[]" e r] a read_failed(3)
    by (simp add: prior_def)
next
  case (no_block pending data)
  then have a: "modify_error e (calls rt) = None" by simp
  show ?thesis
    using Run_no_block [of "rt\<lparr>signals := Event # later\<rparr>" later e data]
      Run_no_block [of "rt\<lparr>signals := [Event]\<rparr>" "[]" e data] a no_block(3,4)
    by (simp add: prior_def)
next
  case (fingerprint_rejected pending data blk err)
  then have a: "modify_error e (calls rt) = None" "modify_error e (Suc (calls rt)) = Some err" by simp_all
  show ?thesis
    using Run_fingerprint_rejected [of "rt\<lparr>signals := Event # later\<rparr>" later e data blk err]
      Run_fingerprint_rejected [of "rt\<lparr>signals := [Event]\<rparr>" "[]" e data blk err] a fingerprint_rejected(3,4)
    by (simp add: prior_def)
next
  case (fingerprint_published pending data blk)
  then have a: "modify_error e (calls rt) = None" "modify_error e (Suc (calls rt)) = None" by simp_all
  show ?thesis
    using Run_fingerprint_published [of "rt\<lparr>signals := Event # later\<rparr>" later e data blk]
      Run_fingerprint_published [of "rt\<lparr>signals := [Event]\<rparr>" "[]" e data blk] a fingerprint_published(3,4)
    by (simp add: prior_def)
qed

lemma Run_later_done:
  "Run e (rt\<lparr>signals := Done # later\<rparr>) = (Returned None, rt\<lparr>signals := Done # later\<rparr>)"
  by (simp add: Run_def)


lemma Run_later:
  "fst (Run e (rt\<lparr>signals := s # later\<rparr>)) = fst (Run e (rt\<lparr>signals := [s]\<rparr>)) \<and>
   trace (snd (Run e (rt\<lparr>signals := s # later\<rparr>))) = trace (snd (Run e (rt\<lparr>signals := [s]\<rparr>))) \<and>
   resource (snd (Run e (rt\<lparr>signals := s # later\<rparr>))) = resource (snd (Run e (rt\<lparr>signals := [s]\<rparr>)))"
proof (cases s)
  case Done
  then show ?thesis by (simp add: Run_later_done)
next
  case Event
  then show ?thesis by (simp add: Run_later_event [where e = e and rt = rt and later = later])
qed


lemma single_shot_signals:
  "signals (snd (Run e rt)) = signals rt \<or> signals rt = Event # signals (snd (Run e rt))"
  by (cases rule: Run_paths [where rt = rt and e = e])
     (simp_all add: Run_blocked Run_cancelled Run_posture_rejected Run_read_failed Run_no_block
        Run_fingerprint_rejected Run_fingerprint_published)


lemma single_shot_calls:
  "filter is_modify_call (effects e rt) = [] \<or>
   (\<exists>err. filter is_modify_call (effects e rt) = [ModifyFailed err]) \<or>
   filter is_modify_call (effects e rt) = [Modified (posture_mutation (posture e) (prior rt))] \<or>
   (\<exists>err. filter is_modify_call (effects e rt)
            = [Modified (posture_mutation (posture e) (prior rt)), ModifyFailed err]) \<or>
   (\<exists>cert. filter is_modify_call (effects e rt)
            = [Modified (posture_mutation (posture e) (prior rt)),
               Modified (fingerprint_mutation cert (posture_mutation (posture e) (prior rt)))])"
  by (cases rule: Run_paths [where rt = rt and e = e])
     (auto simp: effects_def Run_blocked Run_cancelled Run_posture_rejected Run_read_failed
        Run_no_block Run_fingerprint_rejected Run_fingerprint_published)


lemma single_shot_writes: "length (filter is_write (effects e rt)) \<le> 2"
  by (cases rule: Run_paths [where rt = rt and e = e])
     (simp_all add: effects_def Run_blocked Run_cancelled Run_posture_rejected Run_read_failed
        Run_no_block Run_fingerprint_rejected Run_fingerprint_published)


lemma single_shot_returns:
  "signals rt \<noteq> [] \<Longrightarrow> \<exists>r. fst (Run e rt) = Returned r"
  by (cases rule: Run_paths [where rt = rt and e = e])
     (simp_all add: Run_cancelled Run_posture_rejected Run_read_failed
        Run_no_block Run_fingerprint_rejected Run_fingerprint_published)



lemma single_shot_success:
  assumes "signals rt \<noteq> []" and "\<forall>err. ModifyFailed err \<notin> set (effects e rt)"
    and "PemDecoded None \<notin> set (effects e rt)"
  shows "fst (Run e rt) = Returned None"
proof (cases rule: Run_paths [where rt = rt and e = e])
  case blocked
  with assms(1) show ?thesis by simp
next
  case (cancelled pending)
  then show ?thesis by (simp add: Run_cancelled)
next
  case (posture_rejected pending err)
  then have "effects e rt = [ModifyFailed err]" by (rule effects_paths)
  with assms(2) show ?thesis by simp
next
  case (read_failed pending r)
  then show ?thesis by (simp add: Run_read_failed)
next
  case (no_block pending data)
  then have "effects e rt = [Modified (posture_mutation (posture e) (prior rt)),
      FileRead (Inr data), PemDecoded None]" by (rule effects_paths)
  with assms(3) show ?thesis by simp
next
  case (fingerprint_rejected pending data blk err)
  then have "effects e rt = [Modified (posture_mutation (posture e) (prior rt)),
      FileRead (Inr data), PemDecoded (Some blk), ModifyFailed err]" by (rule effects_paths)
  with assms(2) show ?thesis by simp
next
  case (fingerprint_published pending data blk)
  then show ?thesis by (simp add: Run_fingerprint_published)
qed

text \<open>
  C7, amended. In any execution \<^verbatim>\<open>Run\<close> consumes at most one scheduling event and
  nothing else from the pending signals; it calls the modify primitive at most twice,
  first for the posture and then, if at all, for the fingerprint, so it performs at most
  two writes; once a signal has arrived it returns, and it returns \<^verbatim>\<open>nil\<close> unless a write
  was rejected or PEM decoding yielded no block, in which cases it returns that error.
  Signals that arrive after the first one change neither the result, nor the effects,
  nor the resource, and are left pending.
\<close>

lemma single_shot_failure:
  "(\<forall>err. ModifyFailed err \<in> set (effects e rt) \<longrightarrow> fst (Run e rt) = Returned (Some err)) \<and>
   (PemDecoded None \<in> set (effects e rt) \<longrightarrow>
      fst (Run e rt) = Returned (Some (Errorf ''failed to decode PEM block for PCR public key'')))"
proof (cases rule: Run_paths [where rt = rt and e = e])
  case blocked
  then have "effects e rt = []" by (rule effects_paths)
  then show ?thesis by simp
next
  case (cancelled pending)
  then have "effects e rt = []" by (rule effects_paths)
  then show ?thesis by simp
next
  case (posture_rejected pending err)
  then have "effects e rt = [ModifyFailed err]" by (rule effects_paths)
  with posture_rejected show ?thesis by (simp add: Run_posture_rejected)
next
  case (read_failed pending r)
  then have "effects e rt = [Modified (posture_mutation (posture e) (prior rt)), FileRead (Inl r)]"
    by (rule effects_paths)
  then show ?thesis by simp
next
  case (no_block pending data)
  then have "effects e rt = [Modified (posture_mutation (posture e) (prior rt)),
      FileRead (Inr data), PemDecoded None]" by (rule effects_paths)
  with no_block show ?thesis by (simp add: Run_no_block)
next
  case (fingerprint_rejected pending data blk err)
  then have "effects e rt = [Modified (posture_mutation (posture e) (prior rt)),
      FileRead (Inr data), PemDecoded (Some blk), ModifyFailed err]" by (rule effects_paths)
  with fingerprint_rejected show ?thesis by (simp add: Run_fingerprint_rejected)
next
  case (fingerprint_published pending data blk)
  then have "effects e rt = [Modified (posture_mutation (posture e) (prior rt)),
      FileRead (Inr data), PemDecoded (Some blk),
      Modified (fingerprint_mutation \<lparr>Raw = Bytes blk\<rparr> (posture_mutation (posture e) (prior rt)))]"
    by (rule effects_paths)
  then show ?thesis by simp
qed

theorem single_shot:
  "(signals (snd (Run e rt)) = signals rt \<or> signals rt = Event # signals (snd (Run e rt))) \<and>
   (filter is_modify_call (effects e rt) = [] \<or>
    (\<exists>err. filter is_modify_call (effects e rt) = [ModifyFailed err]) \<or>
    filter is_modify_call (effects e rt) = [Modified (posture_mutation (posture e) (prior rt))] \<or>
    (\<exists>err. filter is_modify_call (effects e rt)
             = [Modified (posture_mutation (posture e) (prior rt)), ModifyFailed err]) \<or>
    (\<exists>cert. filter is_modify_call (effects e rt)
             = [Modified (posture_mutation (posture e) (prior rt)),
                Modified (fingerprint_mutation cert (posture_mutation (posture e) (prior rt)))])) \<and>
   length (filter is_write (effects e rt)) \<le> 2 \<and>
   (signals rt \<noteq> [] \<longrightarrow> (\<exists>r. fst (Run e rt) = Returned r)) \<and>
   (signals rt \<noteq> [] \<longrightarrow> (\<forall>err. ModifyFailed err \<notin> set (effects e rt)) \<longrightarrow>
      PemDecoded None \<notin> set (effects e rt) \<longrightarrow> fst (Run e rt) = Returned None) \<and>
   (\<forall>err. ModifyFailed err \<in> set (effects e rt) \<longrightarrow> fst (Run e rt) = Returned (Some err)) \<and>
   (PemDecoded None \<in> set (effects e rt) \<longrightarrow>
      fst (Run e rt) = Returned (Some (Errorf ''failed to decode PEM block for PCR public key''))) \<and>
   fst (Run e (rt\<lparr>signals := s # later\<rparr>)) = fst (Run e (rt\<lparr>signals := [s]\<rparr>)) \<and>
   effects e (rt\<lparr>signals := s # later\<rparr>) = effects e (rt\<lparr>signals := [s]\<rparr>) \<and>
   resource (snd (Run e (rt\<lparr>signals := s # later\<rparr>)))
     = resource (snd (Run e (rt\<lparr>signals := [s]\<rparr>))) \<and>
   signals (snd (Run e (rt\<lparr>signals := Event # later\<rparr>))) = later"
proof (intro conjI)
  show "signals (snd (Run e rt)) = signals rt \<or> signals rt = Event # signals (snd (Run e rt))"
    by (rule single_shot_signals)
  show "length (filter is_write (effects e rt)) \<le> 2"
    by (rule single_shot_writes)
  show "signals rt \<noteq> [] \<longrightarrow> (\<exists>r. fst (Run e rt) = Returned r)"
    using single_shot_returns by blast
  show "signals rt \<noteq> [] \<longrightarrow> (\<forall>err. ModifyFailed err \<notin> set (effects e rt)) \<longrightarrow>
      PemDecoded None \<notin> set (effects e rt) \<longrightarrow> fst (Run e rt) = Returned None"
    using single_shot_success by blast
  show "\<forall>err. ModifyFailed err \<in> set (effects e rt) \<longrightarrow> fst (Run e rt) = Returned (Some err)"
    using single_shot_failure [of e rt] by blast
  show "PemDecoded None \<in> set (effects e rt) \<longrightarrow>
      fst (Run e rt) = Returned (Some (Errorf ''failed to decode PEM block for PCR public key''))"
    using single_shot_failure [of e rt] by blast
  show "fst (Run e (rt\<lparr>signals := s # later\<rparr>)) = fst (Run e (rt\<lparr>signals := [s]\<rparr>))"
    using Run_later [where e = e and rt = rt and s = s and later = later] by simp
  show "effects e (rt\<lparr>signals := s # later\<rparr>) = effects e (rt\<lparr>signals := [s]\<rparr>)"
    using Run_later [where e = e and rt = rt and s = s and later = later] by (simp add: effects_def)
  show "resource (snd (Run e (rt\<lparr>signals := s # later\<rparr>)))
     = resource (snd (Run e (rt\<lparr>signals := [s]\<rparr>)))"
    using Run_later [where e = e and rt = rt and s = s and later = later] by simp
  show "signals (snd (Run e (rt\<lparr>signals := Event # later\<rparr>))) = later"
    by (simp add: Run_later_event [where e = e and rt = rt and later = later])
qed (rule single_shot_calls)

theorem single_shot_witness:
  "signals (example_runtime\<lparr>signals := [Event, Event]\<rparr>) \<noteq> [] \<and>
   fst (Run garbage_block_env (example_runtime\<lparr>signals := [Event, Event]\<rparr>)) = Returned None \<and>
   signals (snd (Run garbage_block_env (example_runtime\<lparr>signals := [Event, Event]\<rparr>))) = [Event] \<and>
   length (filter is_write (effects garbage_block_env (example_runtime\<lparr>signals := [Event, Event]\<rparr>))) = 2 \<and>
   (\<forall>err. ModifyFailed err \<notin> set (effects garbage_block_env (example_runtime\<lparr>signals := [Event, Event]\<rparr>))) \<and>
   PemDecoded None \<notin> set (effects garbage_block_env (example_runtime\<lparr>signals := [Event, Event]\<rparr>)) \<and>
   ModifyFailed (ModifyError ''conflict'') \<in> set (effects rejecting_env example_runtime) \<and>
   fst (Run rejecting_env example_runtime) = Returned (Some (ModifyError ''conflict'')) \<and>
   PemDecoded None \<in> set (effects undecodable_env example_runtime) \<and>
   fst (Run undecodable_env example_runtime)
     = Returned (Some (Errorf ''failed to decode PEM block for PCR public key''))"
  using single_shot [of garbage_block_env "example_runtime\<lparr>signals := [Event, Event]\<rparr>" Event "[Event]"]
    single_shot [of rejecting_env example_runtime Event "[]"]
    single_shot [of undecodable_env example_runtime Event "[]"]
  by (simp add: rejecting_env_def garbage_block_env_def undecodable_env_def example_defs
      effects_def run_simps)

end
